theory Spec2Isabelle
  imports Main "HOL-Library.Word" "HOL-Library.Stream"
begin

section \<open>The luanacha binding: data model\<close>

text \<open>
  \<^verbatim>\<open>luanacha.c\<close> is a Lua binding over the Monocypher primitives. Every exposed function
  reads its arguments from the Lua stack, checks their sizes, calls one primitive and pushes
  the result. The model below follows the C text function by function.

  Platform: an LP64 C implementation, as on every current 64-bit Unix. \<^verbatim>\<open>size_t\<close> is an
  unsigned 64-bit integer, \<^verbatim>\<open>int\<close> a signed 32-bit integer, and the conversion of a Lua integer
  to \<^verbatim>\<open>int\<close> keeps the low 32 bits. Byte strings are lists of 8-bit words; the length of a
  Lua string is the length of the list.

  Arguments are taken after \<^verbatim>\<open>luaL_checklstring\<close>, \<^verbatim>\<open>luaL_optlstring\<close> and
  \<^verbatim>\<open>luaL_optinteger\<close> have accepted them: required strings are byte lists, an optional
  argument is an \<open>option\<close>, \<open>None\<close> when the caller left it out.
\<close>

type_synonym byte = "8 word"
type_synonym bytes = "byte list"

text \<open>The values the binding pushes on the Lua stack: \<^verbatim>\<open>nil\<close> and strings.\<close>

datatype lua_value = LuaNil | LuaString bytes

text \<open>
  How a call ends.
  \<^item> \<open>LuaError msg\<close>: \<^verbatim>\<open>LERR(msg)\<close>, that is \<^verbatim>\<open>return luaL_error(L, msg)\<close>: a raised Lua error.
  \<^item> \<open>LuaReturn vs\<close>: the function returns normally with the values \<open>vs\<close> it pushed,
    in the order of the pushes.
  \<^item> \<open>OutOfBounds\<close>: the call hands a primitive a pointer and a size that reach outside the
    object they come from. C leaves the behaviour undefined; the model stops there.
\<close>

datatype outcome = LuaError string | LuaReturn "lua_value list" | OutOfBounds

text \<open>The bytes of a C string literal.\<close>

definition lit :: "string \<Rightarrow> bytes" where
  "lit s = map of_char s"

text \<open>The spec's \<open>InvalidInput\<close> is a raised Lua error.\<close>

fun is_invalid_input :: "outcome \<Rightarrow> bool" where
  "is_invalid_input (LuaError msg) = True"
| "is_invalid_input (LuaReturn vs) = False"
| "is_invalid_input OutOfBounds = False"

subsection \<open>The primitives the binding calls\<close>

text \<open>
  \<^verbatim>\<open>monocypher.h\<close> and \<^verbatim>\<open>monocypher.c\<close> are not part of the inspected source, so the four
  primitives are parameters of the model. A C primitive writes its output through a pointer;
  the parameter returns the bytes written.
  \<^item> \<open>crypto_ae_lock k n m\<close>: the box written for key \<open>k\<close>, nonce \<open>n\<close> and plaintext \<open>m\<close>
    (\<^verbatim>\<open>text_size + 16\<close> bytes).
  \<^item> \<open>crypto_ae_unlock k n box\<close>: the \<^verbatim>\<open>int\<close> status (0 when the tag verifies) and the
    plaintext written; \<^verbatim>\<open>text_size\<close> is the length of \<open>box\<close> minus 16.
  \<^item> \<open>crypto_x25519_public_key sk\<close>: the public key written (32 bytes).
  \<^item> \<open>crypto_lock_key sk pk\<close>: the \<^verbatim>\<open>int\<close> status and the shared key written (32 bytes).
\<close>

record primitives =
  crypto_ae_lock :: "bytes \<Rightarrow> bytes \<Rightarrow> bytes \<Rightarrow> bytes"
  crypto_ae_unlock :: "bytes \<Rightarrow> bytes \<Rightarrow> bytes \<Rightarrow> int \<times> bytes"
  crypto_x25519_public_key :: "bytes \<Rightarrow> bytes"
  crypto_lock_key :: "bytes \<Rightarrow> bytes \<Rightarrow> int \<times> bytes"

text \<open>
  Modelled from the spec: the output sizes of the Monocypher primitives, whose code is not
  under src/. The spec gives a box of \<open>len(plaintext) + 16\<close> bytes, a recovered plaintext of
  the computed length, and 32-byte public and session keys.
\<close>

definition ae_lock_size :: "primitives \<Rightarrow> bool" where
  "ae_lock_size P \<longleftrightarrow>
     (\<forall>k n m. length k = 32 \<longrightarrow> length n = 24 \<longrightarrow>
        length (crypto_ae_lock P k n m) = length m + 16)"

definition ae_unlock_size :: "primitives \<Rightarrow> bool" where
  "ae_unlock_size P \<longleftrightarrow>
     (\<forall>k n box. length k = 32 \<longrightarrow> length n = 24 \<longrightarrow> fst (crypto_ae_unlock P k n box) = 0 \<longrightarrow>
        length (snd (crypto_ae_unlock P k n box)) = length box - 16)"

definition public_key_size :: "primitives \<Rightarrow> bool" where
  "public_key_size P \<longleftrightarrow>
     (\<forall>sk. length sk = 32 \<longrightarrow> length (crypto_x25519_public_key P sk) = 32)"

definition lock_key_size :: "primitives \<Rightarrow> bool" where
  "lock_key_size P \<longleftrightarrow>
     (\<forall>sk pk. length sk = 32 \<longrightarrow> length pk = 32 \<longrightarrow>
        length (snd (crypto_lock_key P sk pk)) = 32)"

text \<open>
  Modelled from the spec: the authenticated-encryption primitive of Monocypher
  (\<^verbatim>\<open>crypto_ae_lock\<close>, \<^verbatim>\<open>crypto_ae_unlock\<close>, not under src/) verifies and opens the box it
  produced under the same key and nonce.
\<close>

definition ae_roundtrip :: "primitives \<Rightarrow> bool" where
  "ae_roundtrip P \<longleftrightarrow>
     (\<forall>k n m. length k = 32 \<longrightarrow> length n = 24 \<longrightarrow>
        crypto_ae_unlock P k n (crypto_ae_lock P k n m) = (0, m))"

text \<open>
  Modelled from the spec: the X25519 primitives of Monocypher (\<^verbatim>\<open>crypto_x25519_public_key\<close>,
  \<^verbatim>\<open>crypto_lock_key\<close>, not under src/) form a Diffie-Hellman exchange: the key computed from
  one secret key and the public key of another is the same on both sides.
\<close>

definition dh_symmetric :: "primitives \<Rightarrow> bool" where
  "dh_symmetric P \<longleftrightarrow>
     (\<forall>a b. length a = 32 \<longrightarrow> length b = 32 \<longrightarrow>
        snd (crypto_lock_key P a (crypto_x25519_public_key P b)) =
        snd (crypto_lock_key P b (crypto_x25519_public_key P a)))"

subsection \<open>The random source\<close>

text \<open>
  Modelled from the spec: \<^verbatim>\<open>randombytes\<close> is declared \<^verbatim>\<open>extern\<close> and its code is not under
  src/. The spec's RandomSource supplies random byte sequences on demand; the model is an
  endless stream of bytes, and a request for \<open>xlen\<close> bytes takes them from its front.
\<close>

type_synonym random_source = "byte stream"

definition randombytes :: "random_source \<Rightarrow> nat \<Rightarrow> bytes \<times> random_source" where
  "randombytes rs xlen = (stake xlen rs, sdrop xlen rs)"

subsection \<open>Pointer arithmetic on a Lua string\<close>

text \<open>
  \<open>bytes_at s off len\<close> is the object a primitive reads when it is given the pointer
  \<^verbatim>\<open>s + off\<close> and the size \<open>len\<close>: the \<open>len\<close> bytes of \<open>s\<close> from position \<open>off\<close>, when they
  all lie inside \<open>s\<close>.
\<close>

definition bytes_at :: "bytes \<Rightarrow> int \<Rightarrow> nat \<Rightarrow> bytes option" where
  "bytes_at s off len =
     (if 0 \<le> off \<and> nat off + len \<le> length s then Some (take len (drop (nat off) s))
      else None)"

section \<open>Authenticated encryption\<close>

text \<open>
  \<^verbatim>\<open>ln_ae_lock\<close>, Lua API \<^verbatim>\<open>ae_lock(k, n, m [, pfx])\<close>. The prefix is optional and defaults
  to the empty string. The three size checks come in the order of the C text. The buffer
  has \<^verbatim>\<open>bufln = mln + 16 + pfxln\<close> bytes, computed in \<^verbatim>\<open>size_t\<close>; the primitive writes the
  box at \<^verbatim>\<open>buf + pfxln\<close>, \<^verbatim>\<open>memcpy\<close> puts the prefix in front when it is not empty, and
  \<^verbatim>\<open>bufln\<close> bytes are pushed. Were \<^verbatim>\<open>bufln\<close> to wrap around, the primitive would write past the
  allocated bytes.
\<close>

definition ln_ae_lock :: "primitives \<Rightarrow> bytes \<Rightarrow> bytes \<Rightarrow> bytes \<Rightarrow> bytes option \<Rightarrow> outcome" where
  "ln_ae_lock P k n m pfx_opt =
     (let kln = length k; nln = length n; mln = length m;
          pfx = (case pfx_opt of None \<Rightarrow> [] | Some p \<Rightarrow> p);
          pfxln = length pfx
      in if nln \<noteq> 24 then LuaError ''bad nonce size''
         else if kln \<noteq> 32 then LuaError ''bad key size''
         else if pfxln mod 8 \<noteq> 0 then LuaError ''bad prefix size''
         else
           let bufln = unat (word_of_nat mln + 16 + word_of_nat pfxln :: 64 word);
               box = crypto_ae_lock P k n m
           in if bufln < pfxln + length box then OutOfBounds
              else LuaReturn [LuaString (take bufln ((if 0 < pfxln then pfx else []) @ box))])"

text \<open>
  \<^verbatim>\<open>ln_ae_unlock\<close>, Lua API \<^verbatim>\<open>ae_unlock(k, n, c [, i])\<close>. The offset is optional and defaults
  to 0.
  \<^item> \<open>unlock_offset\<close>: \<^verbatim>\<open>int i = luaL_optinteger(L,4, 0)\<close>, the Lua integer narrowed to 32 bits.
  \<^item> \<open>unlock_mln\<close>: \<^verbatim>\<open>mln = cln - i - 16\<close> in \<^verbatim>\<open>size_t\<close>: \<open>i\<close> is converted to 64 bits with its
    sign and the subtraction wraps around.
  \<^item> \<open>unlock_box\<close>: the box of \<^verbatim>\<open>mln + 16\<close> bytes at \<^verbatim>\<open>c + i\<close> given to the primitive.
  There is no check between the two size checks and the call of the primitive.
\<close>

definition unlock_offset :: "int option \<Rightarrow> 32 word" where
  "unlock_offset off_opt = word_of_int (case off_opt of None \<Rightarrow> 0 | Some v \<Rightarrow> v)"

definition unlock_mln :: "nat \<Rightarrow> 32 word \<Rightarrow> 64 word" where
  "unlock_mln cln i = word_of_nat cln - word_of_int (sint i) - 16"

definition unlock_box :: "bytes \<Rightarrow> int option \<Rightarrow> bytes option" where
  "unlock_box c off_opt =
     (let i = unlock_offset off_opt; mln = unlock_mln (length c) i
      in bytes_at c (sint i) (unat mln + 16))"

definition ln_ae_unlock :: "primitives \<Rightarrow> bytes \<Rightarrow> bytes \<Rightarrow> bytes \<Rightarrow> int option \<Rightarrow> outcome" where
  "ln_ae_unlock P k n c off_opt =
     (let kln = length k; nln = length n; cln = length c;
          i = unlock_offset off_opt
      in if nln \<noteq> 24 then LuaError ''bad nonce size''
         else if kln \<noteq> 32 then LuaError ''bad key size''
         else
           let mln = unlock_mln cln i
           in case unlock_box c off_opt of
                None \<Rightarrow> OutOfBounds
              | Some box \<Rightarrow>
                  (case crypto_ae_unlock P k n box of
                     (r, buf) \<Rightarrow>
                       if r \<noteq> 0 then LuaReturn [LuaNil, LuaString (lit ''unlock error'')]
                       else LuaReturn [LuaString (take (unat mln) buf)]))"

section \<open>Curve25519 key exchange\<close>

text \<open>
  \<^verbatim>\<open>ln_x25519_keypair\<close>: 32 random bytes are the secret key, the primitive computes the
  public key, and the function pushes \<^verbatim>\<open>pk\<close> first and \<^verbatim>\<open>sk\<close> second. Its comments name
  both orders: \<^verbatim>\<open>(publickey, secretkey)\<close> in the first line, \<^verbatim>\<open>return (sk, pk)\<close> in the third.
\<close>

definition ln_x25519_keypair :: "primitives \<Rightarrow> random_source \<Rightarrow> outcome \<times> random_source" where
  "ln_x25519_keypair P rs =
     (case randombytes rs 32 of
        (sk, rs') \<Rightarrow>
          let pk = crypto_x25519_public_key P sk
          in (LuaReturn [LuaString (take 32 pk), LuaString (take 32 sk)], rs'))"

text \<open>\<^verbatim>\<open>ln_x25519_public_key\<close>, Lua API \<^verbatim>\<open>x25519_public_key(sk)\<close>.\<close>

definition ln_x25519_public_key :: "primitives \<Rightarrow> bytes \<Rightarrow> outcome" where
  "ln_x25519_public_key P sk =
     (if length sk \<noteq> 32 then LuaError ''bad sk size''
      else LuaReturn [LuaString (take 32 (crypto_x25519_public_key P sk))])"

text \<open>
  \<^verbatim>\<open>ln_lock_key\<close>, Lua API \<^verbatim>\<open>lock_key(sk, pk)\<close>. The public key is checked before the
  secret key. The status of the primitive is assigned to \<^verbatim>\<open>r\<close> (a variable the function does
  not declare) and never read; the 32 bytes of \<^verbatim>\<open>k\<close> are pushed whatever it is.
\<close>

definition ln_lock_key :: "primitives \<Rightarrow> bytes \<Rightarrow> bytes \<Rightarrow> outcome" where
  "ln_lock_key P sk pk =
     (if length pk \<noteq> 32 then LuaError ''bad pk size''
      else if length sk \<noteq> 32 then LuaError ''bad sk size''
      else case crypto_lock_key P sk pk of
             (r, k) \<Rightarrow> LuaReturn [LuaString (take 32 k)])"

section \<open>A small instance of the primitives\<close>

text \<open>
  A concrete, executable instance of the four parameters, used to run the binding on
  concrete inputs. It has the shape the spec gives the primitives (ciphertext of the length
  of the plaintext followed by a 16-byte tag; scalar multiplication by a base point), with
  byte-wise arithmetic in place of XChaCha20, Poly1305 and Curve25519.
\<close>

definition sample_pad :: "bytes \<Rightarrow> bytes \<Rightarrow> byte" where
  "sample_pad k n = sum_list k + sum_list n"

definition sample_tag :: "bytes \<Rightarrow> bytes \<Rightarrow> bytes \<Rightarrow> bytes" where
  "sample_tag k n ct = replicate 16 (sample_pad k n + sum_list ct)"

definition sample_ae_lock :: "bytes \<Rightarrow> bytes \<Rightarrow> bytes \<Rightarrow> bytes" where
  "sample_ae_lock k n m =
     (let ct = map (\<lambda>b. b + sample_pad k n) m in ct @ sample_tag k n ct)"

definition sample_ae_unlock :: "bytes \<Rightarrow> bytes \<Rightarrow> bytes \<Rightarrow> int \<times> bytes" where
  "sample_ae_unlock k n box =
     (let text_size = length box - 16;
          ct = take text_size box;
          mac = drop text_size box
      in if mac = sample_tag k n ct then (0, map (\<lambda>b. b - sample_pad k n) ct)
         else (- 1, []))"

definition sample_x25519_public_key :: "bytes \<Rightarrow> bytes" where
  "sample_x25519_public_key sk = map (\<lambda>s. s * 9) sk"

definition sample_lock_key :: "bytes \<Rightarrow> bytes \<Rightarrow> int \<times> bytes" where
  "sample_lock_key sk pk =
     (let shared = map (\<lambda>(s, p). s * p) (zip sk pk)
      in (if list_all (\<lambda>b. b = 0) shared then - 1 else 0, shared))"

definition sample_primitives :: primitives where
  "sample_primitives =
     \<lparr> crypto_ae_lock = sample_ae_lock,
       crypto_ae_unlock = sample_ae_unlock,
       crypto_x25519_public_key = sample_x25519_public_key,
       crypto_lock_key = sample_lock_key \<rparr>"

section \<open>Facts about the model\<close>

lemma is_invalid_input_iff: "is_invalid_input r \<longleftrightarrow> (\<exists>msg. r = LuaError msg)"
  by (cases r) simp_all

lemma unlock_mln_as_int:
  "unlock_mln cln i = word_of_int (int cln - sint i - 16)"
  unfolding unlock_mln_def by (simp only: of_int_diff of_int_of_nat_eq of_int_numeral)

lemma uint_unlock_mln:
  "uint (unlock_mln cln i) = (int cln - sint i - 16) mod 2 ^ 64"
  by (simp only: unlock_mln_as_int uint_word_of_int) simp

lemma sint_32_bounds: "- (2 ^ 31) \<le> sint (i :: 32 word) \<and> sint i < 2 ^ 31"
  using sint_ge [of i] sint_lt [of i] by simp

lemma unat_unlock_mln_fits:
  assumes "cln < 2 ^ 64" and "sint i + 16 \<le> int cln" and "0 \<le> sint i"
  shows "unat (unlock_mln cln i) = cln - nat (sint i) - 16"
proof -
  let ?x = "int cln - sint i - 16"
  have "0 \<le> ?x" and "?x < 2 ^ 64" using assms by auto
  then have "?x mod 2 ^ 64 = ?x" by simp
  then have "uint (unlock_mln cln i) = ?x" by (simp add: uint_unlock_mln)
  then have "int (unat (unlock_mln cln i)) = ?x" by simp
  then show ?thesis using assms by linarith
qed

lemma unat_unlock_mln_wraps:
  assumes "cln < 2 ^ 64" and "int cln < sint i + 16" and "0 \<le> sint i"
  shows "int (unat (unlock_mln cln i)) = 2 ^ 64 + int cln - sint i - 16"
proof -
  let ?x = "int cln - sint i - 16"
  have b: "sint i < 2 ^ 31" using sint_32_bounds by blast
  have "?x < 0" and "- (2 ^ 64) \<le> ?x" using assms b by auto
  then have "(?x + 2 ^ 64) mod 2 ^ 64 = ?x + 2 ^ 64"
    by (intro mod_pos_pos_trivial) auto
  moreover have "(?x + 2 ^ 64) mod 2 ^ 64 = ?x mod 2 ^ 64"
    by (rule mod_add_self2)
  ultimately have "?x mod 2 ^ 64 = ?x + 2 ^ 64" by (simp only:)
  then have "uint (unlock_mln cln i) = ?x + 2 ^ 64" by (simp only: uint_unlock_mln)
  then show ?thesis by simp
qed

lemma unlock_box_eq:
  assumes "length c < 2 ^ 64"
  shows "unlock_box c off_opt =
     (if 0 \<le> sint (unlock_offset off_opt) \<and> sint (unlock_offset off_opt) + 16 \<le> int (length c)
      then Some (drop (nat (sint (unlock_offset off_opt))) c) else None)"
proof (cases "0 \<le> sint (unlock_offset off_opt)")
  case False
  then show ?thesis by (simp add: unlock_box_def bytes_at_def Let_def)
next
  case nonneg: True
  show ?thesis
  proof (cases "sint (unlock_offset off_opt) + 16 \<le> int (length c)")
    case True
    have "unat (unlock_mln (length c) (unlock_offset off_opt)) = length c - nat (sint (unlock_offset off_opt)) - 16"
      using assms True nonneg by (rule unat_unlock_mln_fits)
    then show ?thesis using True nonneg
      by (simp add: unlock_box_def bytes_at_def Let_def) 
  next
    case False
    then have "int (length c) < sint (unlock_offset off_opt) + 16" by simp
    from unat_unlock_mln_wraps [OF assms this nonneg]
    have "int (length c) < int (nat (sint (unlock_offset off_opt)) + (unat (unlock_mln (length c) (unlock_offset off_opt)) + 16))"
      using assms nonneg by simp
    then have "\<not> nat (sint (unlock_offset off_opt)) + (unat (unlock_mln (length c) (unlock_offset off_opt)) + 16) \<le> length c"
      by linarith
    then show ?thesis using False nonneg
      by (simp add: unlock_box_def bytes_at_def Let_def)
  qed
qed

lemma sint_unlock_offset:
  assumes "- (2 ^ 31) \<le> v" and "v < 2 ^ 31"
  shows "sint (unlock_offset (Some v)) = v"
proof -
  have "sint (word_of_int v :: 32 word) = signed_take_bit 31 v"
    by (simp add: sint_sbintrunc')
  also have "\<dots> = v"
    using assms by (intro signed_take_bit_int_eq_self) simp_all
  finally show ?thesis by (simp add: unlock_offset_def)
qed

lemma lock_bufln:
  assumes "mln + 16 + pfxln < 2 ^ 64"
  shows "unat (word_of_nat mln + 16 + word_of_nat pfxln :: 64 word) = mln + 16 + pfxln"
proof -
  have "(word_of_nat mln + 16 + word_of_nat pfxln :: 64 word) = word_of_nat (mln + 16 + pfxln)"
    by simp
  then show ?thesis using assms by (simp only: unat_of_nat) simp
qed

lemma ln_ae_lock_valid:
  assumes "ae_lock_size P" and "length k = 32" and "length n = 24"
    and "length pfx mod 8 = 0" and "length m + 16 + length pfx < 2 ^ 64"
  shows "ln_ae_lock P k n m (Some pfx) = LuaReturn [LuaString (pfx @ crypto_ae_lock P k n m)]"
proof -
  have box: "length (crypto_ae_lock P k n m) = length m + 16"
    using assms(1-3) by (simp add: ae_lock_size_def)
  have bufln: "unat (word_of_nat (length m) + 16 + word_of_nat (length pfx) :: 64 word)
      = length m + 16 + length pfx"
    using assms(5) by (rule lock_bufln)
  show ?thesis
    using assms(2-4) by (simp add: ln_ae_lock_def Let_def bufln box)
qed

lemma ln_ae_unlock_valid:
  assumes "length k = 32" and "length n = 24" and "length c < 2 ^ 64"
    and "0 \<le> sint (unlock_offset off_opt)"
    and "sint (unlock_offset off_opt) + 16 \<le> int (length c)"
  shows "ln_ae_unlock P k n c off_opt =
     (case crypto_ae_unlock P k n (drop (nat (sint (unlock_offset off_opt))) c) of
        (r, buf) \<Rightarrow>
          if r \<noteq> 0 then LuaReturn [LuaNil, LuaString (lit ''unlock error'')]
          else LuaReturn [LuaString
                 (take (length c - nat (sint (unlock_offset off_opt)) - 16) buf)])"
proof -
  have mln: "unat (unlock_mln (length c) (unlock_offset off_opt))
      = length c - nat (sint (unlock_offset off_opt)) - 16"
    using assms(3,5,4) by (rule unat_unlock_mln_fits)
  show ?thesis
    using assms by (simp add: ln_ae_unlock_def Let_def unlock_box_eq mln split: prod.split)
qed

lemma ln_ae_unlock_out_of_bounds:
  assumes "length k = 32" and "length n = 24" and "length c < 2 ^ 64"
    and "sint (unlock_offset off_opt) < 0 \<or> int (length c) < sint (unlock_offset off_opt) + 16"
  shows "ln_ae_unlock P k n c off_opt = OutOfBounds"
  using assms by (auto simp add: ln_ae_unlock_def Let_def unlock_box_eq)

text \<open>
  The narrowing of the offset, whatever the primitives are: offsets that differ by \<open>2^32\<close>
  are the same \<^verbatim>\<open>int\<close>, so Unlock cannot tell them apart.
\<close>

lemma unlock_offset_narrowed: "unlock_offset (Some (v + 4294967296)) = unlock_offset (Some v)"
proof -
  have "(word_of_int (v + 4294967296) :: 32 word) = word_of_int v + word_of_int 4294967296"
    by (simp only: of_int_add)
  also have "\<dots> = word_of_int v"
    by simp
  finally show ?thesis
    by (simp only: unlock_offset_def option.case)
qed

lemma ln_ae_unlock_offset_narrowed:
  "ln_ae_unlock P k n c (Some (v + 4294967296)) = ln_ae_unlock P k n c (Some v)"
  by (simp only: ln_ae_unlock_def unlock_box_def unlock_offset_narrowed)

lemma ln_ae_lock_no_prefix: "ln_ae_lock P k n m None = ln_ae_lock P k n m (Some [])"
  by (simp add: ln_ae_lock_def)

lemma unlock_box_no_offset:
  "16 \<le> length c \<Longrightarrow> length c < 2 ^ 64 \<Longrightarrow> unlock_box c None = Some c"
  by (simp add: unlock_box_eq unlock_offset_def)

lemma ln_x25519_keypair_eq:
  "ln_x25519_keypair P rs =
     (LuaReturn [LuaString (take 32 (crypto_x25519_public_key P (stake 32 rs))),
                 LuaString (stake 32 rs)], sdrop 32 rs)"
  by (simp add: ln_x25519_keypair_def randombytes_def)

lemma ln_lock_key_valid:
  "length sk = 32 \<Longrightarrow> length pk = 32 \<Longrightarrow>
   ln_lock_key P sk pk = LuaReturn [LuaString (take 32 (snd (crypto_lock_key P sk pk)))]"
  by (simp add: ln_lock_key_def case_prod_beta)

subsection \<open>Offsets that an int holds\<close>

text \<open>
  For an offset \<open>off\<close> with \<open>0 \<le> off < 2^31\<close> and \<open>off + 16 \<le> len(envelope)\<close> the narrowing
  changes nothing and the box lies inside the envelope. There Unlock behaves as the spec
  describes it: the round trip holds, the bytes before the offset play no part, and a
  plaintext of length zero is accepted.
\<close>

lemma lock_unlock_roundtrip_int_offset:
  assumes "ae_lock_size P" and "ae_roundtrip P" and "length k = 32" and "length n = 24"
    and "length pfx mod 8 = 0" and "length pfx < 2 ^ 31"
    and "length m + 16 + length pfx < 2 ^ 64"
  shows "ln_ae_lock P k n m (Some pfx) = LuaReturn [LuaString (pfx @ crypto_ae_lock P k n m)] \<and>
         ln_ae_unlock P k n (pfx @ crypto_ae_lock P k n m) (Some (int (length pfx)))
           = LuaReturn [LuaString m]"
proof -
  let ?box = "crypto_ae_lock P k n m"
  let ?off = "Some (int (length pfx))"
  have lock: "ln_ae_lock P k n m (Some pfx) = LuaReturn [LuaString (pfx @ ?box)]"
    using assms(1,3,4,5,7) by (rule ln_ae_lock_valid)
  have box: "length ?box = length m + 16"
    using assms(1,3,4) by (simp add: ae_lock_size_def)
  have i: "sint (unlock_offset ?off) = int (length pfx)"
    using assms(6) by (intro sint_unlock_offset) simp_all
  have opened: "crypto_ae_unlock P k n ?box = (0, m)"
    using assms(2,3,4) by (simp add: ae_roundtrip_def)
  have "ln_ae_unlock P k n (pfx @ ?box) ?off = LuaReturn [LuaString m]"
    using assms(3,4,7) by (simp add: ln_ae_unlock_valid i box opened)
  with lock show ?thesis by simp
qed

lemma unlock_depends_on_box_only:
  assumes "length c1 = length c2" and "0 \<le> off" and "off < 2 ^ 31"
    and "off + 16 \<le> int (length c1)"
    and "drop (nat off) c1 = drop (nat off) c2"
  shows "ln_ae_unlock P k n c1 (Some off) = ln_ae_unlock P k n c2 (Some off)"
proof -
  have i: "sint (unlock_offset (Some off)) = off"
    using assms(2,3) by (intro sint_unlock_offset) simp_all
  have "unlock_box c1 (Some off) = unlock_box c2 (Some off)"
    using assms(1,5) by (simp add: unlock_box_def bytes_at_def Let_def i)
  then show ?thesis
    using assms(1) by (simp add: ln_ae_unlock_def Let_def)
qed

lemma unlock_zero_length_int_offset:
  assumes "length k = 32" and "length n = 24" and "16 \<le> length c"
    and "off = int (length c) - 16" and "off < 2 ^ 31"
  shows "ln_ae_unlock P k n c (Some off) =
     (if fst (crypto_ae_unlock P k n (drop (nat off) c)) \<noteq> 0
      then LuaReturn [LuaNil, LuaString (lit ''unlock error'')]
      else LuaReturn [LuaString []])"
proof -
  have len: "length c < 2 ^ 64" using assms(4,5) by simp
  have nonneg: "0 \<le> off" using assms(3,4) by simp
  then have "- (2 ^ 31) \<le> off" by simp
  then have i: "sint (unlock_offset (Some off)) = off"
    using assms(5) by (rule sint_unlock_offset)
  have lo: "0 \<le> sint (unlock_offset (Some off))"
    and hi: "sint (unlock_offset (Some off)) + 16 \<le> int (length c)"
    unfolding i using nonneg assms(4) by linarith+
  have zero: "length c \<le> nat off + 16"
    using assms(4) by simp
  show ?thesis
    by (simp add: ln_ae_unlock_valid [OF assms(1,2) len lo hi] i zero case_prod_beta)
qed

subsection \<open>The sample instance keeps the contracts\<close>

lemma sample_fields [simp]:
  "crypto_ae_lock sample_primitives = sample_ae_lock"
  "crypto_ae_unlock sample_primitives = sample_ae_unlock"
  "crypto_x25519_public_key sample_primitives = sample_x25519_public_key"
  "crypto_lock_key sample_primitives = sample_lock_key"
  by (simp_all add: sample_primitives_def)

lemma length_sample_ae_lock: "length (sample_ae_lock k n m) = length m + 16"
  by (simp add: sample_ae_lock_def sample_tag_def Let_def)

lemma sample_ae_unlock_lock: "sample_ae_unlock k n (sample_ae_lock k n m) = (0, m)"
  by (simp add: sample_ae_unlock_def sample_ae_lock_def sample_tag_def Let_def comp_def)

lemma length_sample_ae_unlock:
  "fst (sample_ae_unlock k n box) = 0 \<Longrightarrow> length (snd (sample_ae_unlock k n box)) = length box - 16"
  by (simp add: sample_ae_unlock_def Let_def split: if_splits)

lemma sample_ae_lock_size: "ae_lock_size sample_primitives"
  by (simp add: ae_lock_size_def length_sample_ae_lock)

lemma sample_ae_unlock_size: "ae_unlock_size sample_primitives"
  by (simp add: ae_unlock_size_def length_sample_ae_unlock)

lemma sample_ae_roundtrip: "ae_roundtrip sample_primitives"
  by (simp add: ae_roundtrip_def sample_ae_unlock_lock)

lemma sample_public_key_size: "public_key_size sample_primitives"
  by (simp add: public_key_size_def sample_x25519_public_key_def)

lemma sample_lock_key_size: "lock_key_size sample_primitives"
  by (simp add: lock_key_size_def sample_lock_key_def Let_def)

lemma sample_dh_symmetric: "dh_symmetric sample_primitives"
proof -
  have "map (\<lambda>(s, p). s * p) (zip a (map (\<lambda>s. s * 9) b))
      = map (\<lambda>(s, p). s * p) (zip b (map (\<lambda>s. s * 9) a))"
    if "length a = length b" for a b :: bytes
    using that by (induction a b rule: list_induct2) (simp_all add: mult.commute mult.left_commute)
  then show ?thesis
    by (simp add: dh_symmetric_def sample_lock_key_def sample_x25519_public_key_def Let_def)
qed

lemma funpow_ident: "((\<lambda>a. a) ^^ n) x = x"
  by (induction n) simp_all

lemma stake_sconst: "stake n (sconst x) = replicate n x"
  by (simp add: funpow_ident map_replicate_const)

lemma sample_unlock_zero_key:
  "sample_ae_unlock (replicate 32 0) (replicate 24 0) box =
     (if drop (length box - 16) box = replicate 16 (sum_list (take (length box - 16) box))
      then (0, take (length box - 16) box) else (- 1, []))"
  by (simp add: sample_ae_unlock_def sample_tag_def sample_pad_def Let_def sum_list_replicate)

lemma unlock_offset_wraps: "sint (unlock_offset (Some 4294967296)) = 0"
  by (simp add: unlock_offset_def)

lemma lock_unlock_roundtrip_example:
  "ln_ae_lock sample_primitives (replicate 32 0) (replicate 24 0) [104, 101, 108, 108, 111]
       (Some [1, 2, 3, 4, 5, 6, 7, 8])
     = LuaReturn [LuaString ([1, 2, 3, 4, 5, 6, 7, 8] @
         sample_ae_lock (replicate 32 0) (replicate 24 0) [104, 101, 108, 108, 111])] \<and>
   ln_ae_unlock sample_primitives (replicate 32 0) (replicate 24 0)
       ([1, 2, 3, 4, 5, 6, 7, 8] @
         sample_ae_lock (replicate 32 0) (replicate 24 0) [104, 101, 108, 108, 111]) (Some 8)
     = LuaReturn [LuaString [104, 101, 108, 108, 111]]"
  using lock_unlock_roundtrip_int_offset [OF sample_ae_lock_size sample_ae_roundtrip,
      of "replicate 32 0" "replicate 24 0" "[1, 2, 3, 4, 5, 6, 7, 8]" "[104, 101, 108, 108, 111]"]
  by simp

section \<open>The claims\<close>

text \<open>
  C5. Lock raises an error for every key that is not 32 bytes long, every nonce that is
  not 24 bytes long and every prefix whose length is not a multiple of 8; Unlock raises an
  error for every key that is not 32 bytes long and every nonce that is not 24 bytes long.
\<close>

theorem size_checks_reject:
  "(length k \<noteq> 32 \<or> length n \<noteq> 24 \<longrightarrow> is_invalid_input (ln_ae_lock P k n m pfx_opt)) \<and>
   (length pfx mod 8 \<noteq> 0 \<longrightarrow> is_invalid_input (ln_ae_lock P k n m (Some pfx))) \<and>
   (length k \<noteq> 32 \<or> length n \<noteq> 24 \<longrightarrow> is_invalid_input (ln_ae_unlock P k n c off_opt))"
  by (simp add: ln_ae_lock_def ln_ae_unlock_def Let_def)

theorem size_checks_reject_witness:
  "length (replicate 31 (0 :: byte)) \<noteq> 32 \<and> length [1 :: byte] mod 8 \<noteq> 0 \<and>
   is_invalid_input
     (ln_ae_lock sample_primitives (replicate 31 0) (replicate 24 0) [104, 105] None) \<and>
   is_invalid_input
     (ln_ae_lock sample_primitives (replicate 31 0) (replicate 24 0) [104, 105] (Some [1])) \<and>
   is_invalid_input
     (ln_ae_unlock sample_primitives (replicate 31 0) (replicate 24 0) (replicate 18 0) None)"
  using size_checks_reject [of "replicate 31 0" "replicate 24 0" sample_primitives
      "[104, 105]" None "[1]" "replicate 18 0" None]
  by simp




text \<open>
  C1. The claim: for a 32-byte key, a 24-byte nonce, any plaintext and any prefix whose
  length is a multiple of 8, Unlock at the offset of the prefix length returns the plaintext
  given to Lock. The code breaks it for a prefix of \<open>2^32\<close> bytes. Lock, which keeps the
  prefix length in \<^verbatim>\<open>size_t\<close>, builds the envelope; Unlock stores the offset \<open>4294967296\<close> in
  \<^verbatim>\<open>int i\<close>, where it is 0, and gives the primitive the whole envelope, \<open>2^32 + 2\<close> bytes of
  text and a tag. With the sample instance the tag verifies and the result is the prefix
  followed by the plaintext; with any primitive that writes the whole text the result is
  \<^verbatim>\<open>nil\<close> with the message or \<open>2^32 + 2\<close> bytes, never the two bytes of the plaintext.
\<close>

theorem roundtrip_broken_by_int_offset:
  "length (replicate 4294967296 (0 :: byte)) mod 8 = 0 \<and>
   ln_ae_lock sample_primitives (replicate 32 0) (replicate 24 0) [104, 105]
       (Some (replicate 4294967296 0))
     = LuaReturn [LuaString (replicate 4294967296 0 @ [104, 105] @ replicate 16 209)] \<and>
   ln_ae_unlock sample_primitives (replicate 32 0) (replicate 24 0)
       (replicate 4294967296 0 @ [104, 105] @ replicate 16 209)
       (Some (int (length (replicate 4294967296 (0 :: byte)))))
     = LuaReturn [LuaString (replicate 4294967296 0 @ [104, 105])] \<and>
   LuaReturn [LuaString (replicate 4294967296 0 @ [104, 105])] \<noteq> LuaReturn [LuaString [104, 105]]"
proof -
  have lock: "ln_ae_lock sample_primitives (replicate 32 0) (replicate 24 0) [104, 105]
       (Some (replicate 4294967296 0))
     = LuaReturn [LuaString (replicate 4294967296 0 @ [104, 105] @ replicate 16 209)]"
    by (simp add: ln_ae_lock_valid sample_ae_lock_size sample_ae_lock_def sample_tag_def
        sample_pad_def sum_list_replicate)
  have unlock: "ln_ae_unlock sample_primitives (replicate 32 0) (replicate 24 0)
       (replicate 4294967296 0 @ [104, 105] @ replicate 16 209) (Some 4294967296)
     = LuaReturn [LuaString (replicate 4294967296 0 @ [104, 105])]"
    by (simp add: ln_ae_unlock_valid unlock_offset_wraps sample_unlock_zero_key sum_list_replicate)
  have "length (replicate 4294967296 (0 :: byte) @ [104, 105]) \<noteq> length [104, 105 :: byte]"
    by simp
  then have "replicate 4294967296 (0 :: byte) @ [104, 105] \<noteq> [104, 105]"
    by (metis (no_types))
  with lock unlock show ?thesis by simp
qed


text \<open>
  C2. The claim: when \<open>len(envelope) - offset - 16\<close> is negative, Unlock fails with
  InvalidInput. The code has no such check. For an envelope of 15 bytes and offset 0,
  \<^verbatim>\<open>mln = cln - i - 16\<close> wraps around to \<open>2^64 - 1\<close> and the primitive is called with a box
  that reaches far beyond the envelope; no error is raised.
\<close>

theorem unlock_short_envelope:
  "int (length (replicate 15 (0 :: byte))) - 0 - 16 < 0 \<and>
   ln_ae_unlock P (replicate 32 0) (replicate 24 0) (replicate 15 0) (Some 0) = OutOfBounds \<and>
   \<not> is_invalid_input (ln_ae_unlock P (replicate 32 0) (replicate 24 0) (replicate 15 0) (Some 0))"
  by (simp add: ln_ae_unlock_out_of_bounds unlock_offset_def)

text \<open>
  C3. The claim: GenerateKeypair returns the secret key first and the public key second, and
  the public key is the one derived from the secret key. The code pushes \<^verbatim>\<open>pk\<close> first and
  \<^verbatim>\<open>sk\<close> second: with a random source that yields bytes of value 1, the first value returned
  is the public key of the second.
\<close>

theorem keypair_public_key_first:
  "ln_x25519_keypair sample_primitives (sconst 1)
     = (LuaReturn [LuaString (replicate 32 9), LuaString (replicate 32 1)], sconst 1) \<and>
   ln_x25519_public_key sample_primitives (replicate 32 1) = LuaReturn [LuaString (replicate 32 9)]"
  by (simp add: ln_x25519_keypair_eq ln_x25519_public_key_def stake_sconst
      sample_x25519_public_key_def del: stake_siterate)

text \<open>
  C4. In every call of Unlock with a 32-byte key and a 24-byte nonce that reaches the
  primitive and whose tag verification fails (non-zero status), the function returns
  normally with exactly two values, \<^verbatim>\<open>nil\<close> and the message \<^verbatim>\<open>unlock error\<close>: no error is
  raised and nothing the primitive wrote is returned.
\<close>

theorem unlock_auth_failure:
  assumes "length k = 32" and "length n = 24"
    and "unlock_box c off_opt = Some box"
    and "fst (crypto_ae_unlock P k n box) \<noteq> 0"
  shows "ln_ae_unlock P k n c off_opt = LuaReturn [LuaNil, LuaString (lit ''unlock error'')]"
  using assms by (simp add: ln_ae_unlock_def Let_def case_prod_beta)

theorem unlock_auth_failure_witness:
  "unlock_box (1 # replicate 16 0) None = Some (1 # replicate 16 0) \<and>
   fst (sample_ae_unlock (replicate 32 0) (replicate 24 0) (1 # replicate 16 0)) \<noteq> 0 \<and>
   ln_ae_unlock sample_primitives (replicate 32 0) (replicate 24 0) (1 # replicate 16 0) None
     = LuaReturn [LuaNil, LuaString (lit ''unlock error'')]"
proof -
  have box: "unlock_box (1 # replicate 16 0) None = Some (1 # replicate 16 0)"
    by (simp add: unlock_box_no_offset)
  have r: "fst (sample_ae_unlock (replicate 32 0) (replicate 24 0) (1 # replicate 16 0)) \<noteq> 0"
    by (simp add: sample_unlock_zero_key)
  from r have r': "fst (crypto_ae_unlock sample_primitives (replicate 32 0) (replicate 24 0)
      (1 # replicate 16 0)) \<noteq> 0"
    by simp
  show ?thesis
    using unlock_auth_failure [OF _ _ box r'] box r by simp
qed

text \<open>
  C7. For two 32-byte secret keys and the public keys DerivePublicKey returns for them,
  DeriveSessionKey gives the same key on both sides and raises no error. The symmetry of
  the Diffie-Hellman primitive itself is the contract \<open>dh_symmetric\<close>; the theorem carries
  it through the size checks, the argument order and the 32-byte results of the binding.
\<close>

theorem session_key_symmetric:
  assumes "dh_symmetric P" and "public_key_size P"
    and "length skA = 32" and "length skB = 32"
    and "ln_x25519_public_key P skA = LuaReturn [LuaString pkA]"
    and "ln_x25519_public_key P skB = LuaReturn [LuaString pkB]"
  shows "ln_lock_key P skA pkB = ln_lock_key P skB pkA \<and>
         \<not> is_invalid_input (ln_lock_key P skA pkB)"
proof -
  have lenA: "length (crypto_x25519_public_key P skA) = 32"
    and lenB: "length (crypto_x25519_public_key P skB) = 32"
    using assms(2-4) by (simp_all add: public_key_size_def)
  have pkA: "pkA = crypto_x25519_public_key P skA"
    using assms(3,5) lenA by (simp add: ln_x25519_public_key_def)
  have pkB: "pkB = crypto_x25519_public_key P skB"
    using assms(4,6) lenB by (simp add: ln_x25519_public_key_def)
  have "snd (crypto_lock_key P skA pkB) = snd (crypto_lock_key P skB pkA)"
    using assms(1,3,4) unfolding pkA pkB by (simp add: dh_symmetric_def)
  then show ?thesis
    using assms(3,4) lenA lenB
    by (simp add: ln_lock_key_valid pkA pkB)
qed

theorem session_key_symmetric_witness:
  "ln_x25519_public_key sample_primitives (replicate 32 2) = LuaReturn [LuaString (replicate 32 18)] \<and>
   ln_x25519_public_key sample_primitives (replicate 32 3) = LuaReturn [LuaString (replicate 32 27)] \<and>
   ln_lock_key sample_primitives (replicate 32 2) (replicate 32 27) = LuaReturn [LuaString (replicate 32 54)] \<and>
   ln_lock_key sample_primitives (replicate 32 3) (replicate 32 18) = LuaReturn [LuaString (replicate 32 54)]"
proof -
  have a: "ln_x25519_public_key sample_primitives (replicate 32 2) = LuaReturn [LuaString (replicate 32 18)]"
    by (simp add: ln_x25519_public_key_def sample_x25519_public_key_def)
  have b: "ln_x25519_public_key sample_primitives (replicate 32 3) = LuaReturn [LuaString (replicate 32 27)]"
    by (simp add: ln_x25519_public_key_def sample_x25519_public_key_def)
  have c: "ln_lock_key sample_primitives (replicate 32 2) (replicate 32 27) = LuaReturn [LuaString (replicate 32 54)]"
    by (simp add: ln_lock_key_def sample_lock_key_def Let_def zip_replicate)
  show ?thesis
    using session_key_symmetric [OF sample_dh_symmetric sample_public_key_size _ _ a b] a b c
    by simp
qed


text \<open>
  C9. For a 32-byte secret key and a 32-byte public key DeriveSessionKey raises no error
  and returns the 32 bytes the primitive wrote, whatever status \<open>r\<close> the primitive
  reports.
\<close>

theorem lock_key_ignores_status:
  assumes "lock_key_size P" and "length sk = 32" and "length pk = 32"
    and "crypto_lock_key P sk pk = (r, key)"
  shows "ln_lock_key P sk pk = LuaReturn [LuaString key] \<and> length key = 32"
proof -
  have "length (snd (crypto_lock_key P sk pk)) = 32"
    using assms(1-3) by (simp add: lock_key_size_def)
  then have "length key = 32" by (simp add: assms(4))
  then show ?thesis using assms(2-4) by (simp add: ln_lock_key_def)
qed

theorem lock_key_ignores_status_witness:
  "crypto_lock_key sample_primitives (replicate 32 7) (replicate 32 0) = (- 1, replicate 32 0) \<and>
   ln_lock_key sample_primitives (replicate 32 7) (replicate 32 0) = LuaReturn [LuaString (replicate 32 0)] \<and>
   length (replicate 32 (0 :: byte)) = 32"
proof -
  have prim: "crypto_lock_key sample_primitives (replicate 32 7) (replicate 32 0) = (- 1, replicate 32 0)"
    by (simp add: sample_lock_key_def Let_def zip_replicate list_all_iff)
  show ?thesis
    using lock_key_ignores_status [OF sample_lock_key_size _ _ prim] prim by simp
qed


end
